theory Spec2Isabelle
  imports Main
begin

section \<open>GenericFormWithSearchResults: the search flow of src/search.js\<close>

text \<open>
  The component reacts to two kinds of events of the browser's event loop: a trigger of
  the search input (\<open>clear\<close>, \<open>submit\<close>, \<open>blur\<close>, bound to \<open>_togglePopupVisibility\<close>) and
  the settlement of an underlying fetch (the \<open>then\<close> handlers installed in
  \<open>_fetchResultsSingle\<close>). Every \<open>async\<close> method is split at its \<open>await\<close> into the part
  that runs synchronously (\<open>_start\<close>) and the part that runs once the awaited promise has
  settled (\<open>_resume\<close>). A promise created by \<open>_fetchResultsSingle\<close> is a cell of the
  \<open>requests\<close> store; settling it queues the continuation of the flow that awaits it, and
  the queue is drained before the next event is delivered, as the microtask queue is.
  The settlement of a fetch is an event of its own; one for a fetch that is not in flight
  changes nothing. The loading indicator (\<open>blockTillDone\<close>), the layout methods and
  \<open>console.log\<close> touch none of the fields below and are left out.
\<close>

subsection \<open>Data\<close>

text \<open>The criteria object: \<open>{}\<close> or \<open>{FirstName: value}\<close>, compared by \<open>_.isEqual\<close>.\<close>

type_synonym criteria = "(string \<times> string) list"

text \<open>\<open>class PromiseRejectedError extends CustomError\<close> against every other error.\<close>

datatype error = PromiseRejectedError string | Error string

fun error_message :: "error \<Rightarrow> string" where
  "error_message (PromiseRejectedError m) = m"
| "error_message (Error m) = m"

datatype 'a outcome = Fulfilled 'a | Rejected error

datatype 'a promise = Pending | Settled "'a outcome"

text \<open>A model of the form's error collection: \<open>{group, message}\<close>.\<close>

record error_entry =
  group :: string
  message :: string

text \<open>
  One call of \<open>_fetchResultsSingle\<close>: the criteria it was called with, the promise it
  returned, and whether the promise of \<open>_fetchResults\<close> is still unsettled.
\<close>

record 'r request =
  req_criteria :: criteria
  req_promise :: "'r list promise"
  fetch_in_flight :: bool

text \<open>The configuration: \<open>prepareResults\<close> is a function or \<open>null\<close>.\<close>

record 'r options =
  prepareResults :: "('r list \<Rightarrow> 'r list) option"

record 'r view =
  rendered :: bool
  input_value :: string
  rejectLastSearchRequest :: "nat option"
  lastSearchCriteria :: criteria
  collection :: "'r list"
  form_errors :: "error_entry list"
  popup_shown :: bool
  el_classes :: "string set"
  requests :: "'r request list"
  microtasks :: "nat list"

definition CSS_BASE :: string where
  "CSS_BASE = ''generic-form-with-search-results''"

definition CSS_HIDE_RESULTS_LIST :: string where
  "CSS_HIDE_RESULTS_LIST = ''generic-form-with-search-results--results-view-hidden''"

definition fetchDataError_group :: string where
  "fetchDataError_group = ''fetchResultsForCriteria::fetchDataError''"

subsection \<open>Collapse and expand\<close>

definition expandResultsView :: "'r view \<Rightarrow> 'r view" where
  "expandResultsView v = v\<lparr>el_classes := el_classes v - {CSS_HIDE_RESULTS_LIST}\<rparr>"

definition collapseResultsView :: "'r view \<Rightarrow> 'r view" where
  "collapseResultsView v = v\<lparr>el_classes := insert CSS_HIDE_RESULTS_LIST (el_classes v)\<rparr>"

definition refreshCollapsingStatusOfTheResultsView :: "'r view \<Rightarrow> 'r view" where
  "refreshCollapsingStatusOfTheResultsView v =
     (if length (collection v) \<noteq> 0 then expandResultsView v else collapseResultsView v)"

text \<open>
  \<open>collection.reset(models)\<close> replaces the rows and fires \<open>reset\<close>, to which \<open>initialize\<close>
  has bound \<open>_refreshCollapsingStatusOfTheResultsView\<close>.
\<close>

definition collection_reset :: "'r list \<Rightarrow> 'r view \<Rightarrow> 'r view" where
  "collection_reset rows v = refreshCollapsingStatusOfTheResultsView (v\<lparr>collection := rows\<rparr>)"

definition popup_show :: "'r view \<Rightarrow> 'r view" where
  "popup_show v = v\<lparr>popup_shown := True\<rparr>"

definition popup_hide :: "'r view \<Rightarrow> 'r view" where
  "popup_hide v = v\<lparr>popup_shown := False\<rparr>"

subsection \<open>The form's error collection\<close>

text \<open>
  Modelled from the spec: \<open>removeModelsOfGroup\<close> and \<open>add\<close> belong to the form's error
  collection, which is not part of src/search.js. The group is cleared, then one entry is
  appended.
\<close>

definition removeModelsOfGroup :: "string \<Rightarrow> error_entry list \<Rightarrow> error_entry list" where
  "removeModelsOfGroup g es = filter (\<lambda>e. group e \<noteq> g) es"

definition add_error :: "error_entry \<Rightarrow> error_entry list \<Rightarrow> error_entry list" where
  "add_error e es = es @ [e]"

subsection \<open>Promises\<close>

text \<open>
  \<open>resolve\<close> and \<open>reject\<close> of a promise: the first call settles it and queues the flow
  awaiting it, every later call does nothing.
\<close>

definition settle :: "nat \<Rightarrow> 'r list outcome \<Rightarrow> 'r view \<Rightarrow> 'r view" where
  "settle n out v =
     (if n < length (requests v) \<and> req_promise (requests v ! n) = Pending
      then v\<lparr>requests := (requests v)[n := (requests v ! n)\<lparr>req_promise := Settled out\<rparr>],
             microtasks := microtasks v @ [n]\<rparr>
      else v)"

text \<open>\<open>p.catch(h)\<close>: a fulfilled promise passes through, a rejected one runs the handler.\<close>

definition promise_catch ::
  "(error \<Rightarrow> 's \<Rightarrow> 's \<times> 'a) \<Rightarrow> 'a outcome \<Rightarrow> 's \<Rightarrow> 's \<times> 'a outcome" where
  "promise_catch h out s =
     (case out of
        Fulfilled x \<Rightarrow> (s, Fulfilled x)
      | Rejected e \<Rightarrow> (case h e s of (s', y) \<Rightarrow> (s', Fulfilled y)))"

subsection \<open>\<open>_fetchResultsSingle\<close>\<close>

text \<open>The closure stored in \<open>_rejectLastSearchRequest\<close> by the call numbered \<open>n\<close>.\<close>

definition rejectLast_closure :: "nat \<Rightarrow> 'r view \<Rightarrow> 'r view" where
  "rejectLast_closure n v =
     (settle n (Rejected (PromiseRejectedError ''Request is cancelled'')) v)
       \<lparr>rejectLastSearchRequest := None\<rparr>"

text \<open>
  The call rejects the stored request if there is one, creates the promise, stores its
  closure and starts \<open>_fetchResults\<close>. It returns the number of the new promise.
\<close>

definition fetchResultsSingle :: "criteria \<Rightarrow> 'r view \<Rightarrow> 'r view \<times> nat" where
  "fetchResultsSingle crit v =
     (let v1 = (case rejectLastSearchRequest v of
                  Some k \<Rightarrow> rejectLast_closure k v
                | None \<Rightarrow> v);
          n = length (requests v1)
      in (v1\<lparr>requests := requests v1 @
                [\<lparr>req_criteria = crit, req_promise = Pending, fetch_in_flight = True\<rparr>],
             rejectLastSearchRequest := Some n\<rparr>, n))"

text \<open>
  The two handlers given to \<open>this._fetchResults(...).then\<close>: both clear the stored closure
  and then resolve or reject the promise of the call. A fetch settles once.
\<close>

definition fetchResults_then :: "nat \<Rightarrow> 'r list outcome \<Rightarrow> 'r view \<Rightarrow> 'r view" where
  "fetchResults_then n out v =
     (if n < length (requests v) \<and> fetch_in_flight (requests v ! n)
      then settle n out
             (v\<lparr>rejectLastSearchRequest := None,
                requests := (requests v)[n := (requests v ! n)\<lparr>fetch_in_flight := False\<rparr>]\<rparr>)
      else v)"

subsection \<open>\<open>_prepareDataForResultsView\<close> and \<open>_loadSearchResultsIntoTable\<close>\<close>

definition prepareDataForResultsView :: "'r options \<Rightarrow> 'r list \<Rightarrow> 'r list" where
  "prepareDataForResultsView opts data =
     (case prepareResults opts of Some f \<Rightarrow> f data | None \<Rightarrow> data)"

definition loadSearchResultsIntoTable_start :: "criteria \<Rightarrow> 'r view \<Rightarrow> 'r view \<times> nat" where
  "loadSearchResultsIntoTable_start crit v = fetchResultsSingle crit v"

text \<open>The handler of \<open>request.catch\<close>: it takes every error, whatever its class.\<close>

definition fetchDataError_handler :: "error \<Rightarrow> 'r view \<Rightarrow> 'r view \<times> 'r list" where
  "fetchDataError_handler e v =
     (v\<lparr>form_errors :=
          add_error \<lparr>group = fetchDataError_group, message = error_message e\<rparr>
            (removeModelsOfGroup fetchDataError_group (form_errors v))\<rparr>, [])"

definition loadSearchResultsIntoTable_resume ::
  "'r options \<Rightarrow> 'r list outcome \<Rightarrow> 'r view \<Rightarrow> 'r view \<times> (error + 'r list)" where
  "loadSearchResultsIntoTable_resume opts out v =
     (case promise_catch fetchDataError_handler out v of
        (v1, Fulfilled results) \<Rightarrow>
          (let preparedResults = prepareDataForResultsView opts results
           in (collection_reset preparedResults v1, Inr preparedResults))
      | (v1, Rejected e) \<Rightarrow> (v1, Inl e))"

subsection \<open>\<open>_refreshSearchResults\<close>\<close>

definition searchCriteria :: "'r view \<Rightarrow> criteria" where
  "searchCriteria v = (if rendered v then [(''FirstName'', input_value v)] else [])"

text \<open>
  The synchronous part: \<open>Some n\<close> when the flow now awaits the request \<open>n\<close>, \<open>None\<close> when
  the criteria equal the last ones and the method returns \<open>undefined\<close>.
\<close>

definition refreshSearchResults_start :: "'r view \<Rightarrow> 'r view \<times> nat option" where
  "refreshSearchResults_start v =
     (if searchCriteria v \<noteq> lastSearchCriteria v
      then (case loadSearchResultsIntoTable_start (searchCriteria v) v of
              (v1, n) \<Rightarrow> (v1, Some n))
      else (v, None))"

definition refreshSearchResults_resume ::
  "criteria \<Rightarrow> error + 'r list \<Rightarrow> 'r view \<Rightarrow> 'r view \<times> (error + 'r list option)" where
  "refreshSearchResults_resume crit r v =
     (case r of
        Inl e \<Rightarrow> (v, Inl e)
      | Inr resultsLoading \<Rightarrow> (v\<lparr>lastSearchCriteria := crit\<rparr>, Inr (Some resultsLoading)))"

subsection \<open>\<open>_togglePopupVisibility\<close>\<close>

text \<open>
  The part after \<open>await this._refreshSearchResults()\<close>. The second component is the error
  the method rethrows, if any.
\<close>

definition togglePopupVisibility_resume ::
  "error + 'r list option \<Rightarrow> 'r view \<Rightarrow> 'r view \<times> error option" where
  "togglePopupVisibility_resume r v =
     (case r of
        Inl (PromiseRejectedError m) \<Rightarrow> (v, None)
      | Inl (Error m) \<Rightarrow> (v, Some (Error m))
      | Inr results \<Rightarrow>
          (refreshCollapsingStatusOfTheResultsView
             ((case results of
                 None \<Rightarrow> popup_show
               | Some rows \<Rightarrow> if length rows = 0 then popup_show else popup_hide) v),
           None))"

text \<open>The continuation of the flow that awaits the request \<open>n\<close>, once it has settled.\<close>

definition resume_flow :: "'r options \<Rightarrow> nat \<Rightarrow> 'r view \<Rightarrow> 'r view" where
  "resume_flow opts n v =
     (if n < length (requests v)
      then (case req_promise (requests v ! n) of
              Pending \<Rightarrow> v
            | Settled out \<Rightarrow>
                (case loadSearchResultsIntoTable_resume opts out v of
                   (v1, r1) \<Rightarrow>
                     (case refreshSearchResults_resume (req_criteria (requests v ! n)) r1 v1 of
                        (v2, r2) \<Rightarrow> fst (togglePopupVisibility_resume r2 v2))))
      else v)"

definition run_microtasks :: "'r options \<Rightarrow> 'r view \<Rightarrow> 'r view" where
  "run_microtasks opts v = fold (resume_flow opts) (microtasks v) (v\<lparr>microtasks := []\<rparr>)"

text \<open>The handler of \<open>clear\<close>, \<open>submit\<close> and \<open>blur\<close>, with everything it queues.\<close>

definition togglePopupVisibility :: "'r options \<Rightarrow> 'r view \<Rightarrow> 'r view" where
  "togglePopupVisibility opts v =
     (case refreshSearchResults_start v of
        (v1, Some n) \<Rightarrow> run_microtasks opts v1
      | (v1, None) \<Rightarrow> run_microtasks opts (fst (togglePopupVisibility_resume (Inr None) v1)))"

subsection \<open>Construction and events\<close>

text \<open>
  \<open>initialize\<close>, given the rows of the results view's collection and the entries of the
  form's error collection. Line 87 binds the trigger to \<open>this.getSearchInput()\<close>, the view
  inside the \<open>search\<close> child view that \<open>onRender\<close> shows, so the component is rendered
  when \<open>initialize\<close> returns; \<open>_lastSearchCriteria\<close> is the class field \<open>{}\<close>.
\<close>

definition initialize :: "'r list \<Rightarrow> error_entry list \<Rightarrow> 'r view" where
  "initialize rows errs =
     refreshCollapsingStatusOfTheResultsView
       \<lparr>rendered = True, input_value = [], rejectLastSearchRequest = None,
        lastSearchCriteria = [], collection = rows, form_errors = errs,
        popup_shown = False, el_classes = {CSS_BASE}, requests = [], microtasks = []\<rparr>"

datatype 'r event =
    Render
  | Input string
  | Trigger
  | FetchSettled nat "'r list outcome"
  | CollectionChanged "'r list"
  | ErrorViewClick

fun step :: "'r options \<Rightarrow> 'r view \<Rightarrow> 'r event \<Rightarrow> 'r view" where
  "step opts v Render = v\<lparr>rendered := True\<rparr>"
| "step opts v (Input s) = v\<lparr>input_value := s\<rparr>"
| "step opts v Trigger = togglePopupVisibility opts v"
| "step opts v (FetchSettled n out) = run_microtasks opts (fetchResults_then n out v)"
| "step opts v (CollectionChanged rows) = collection_reset rows v"
| "step opts v ErrorViewClick = popup_hide v"

definition run :: "'r options \<Rightarrow> 'r view \<Rightarrow> 'r event list \<Rightarrow> 'r view" where
  "run opts v evs = foldl (step opts) v evs"

subsection \<open>The collapse rule and the scenarios used below\<close>

definition collapse_inv :: "'r view \<Rightarrow> bool" where
  "collapse_inv v = ((CSS_HIDE_RESULTS_LIST \<in> el_classes v) = (collection v = []))"

text \<open>A component without \<open>prepareResults\<close>, and one whose transform appends a row.\<close>

definition no_prepare :: "string options" where
  "no_prepare = \<lparr>prepareResults = None\<rparr>"

definition with_footer :: "string options" where
  "with_footer = \<lparr>prepareResults = Some (\<lambda>rows. rows @ [''Add a new person''])\<rparr>"

text \<open>The search for \<open>ann\<close> has been issued and its fetch is in flight.\<close>

definition searching_ann :: "string view" where
  "searching_ann = run no_prepare (initialize [] []) [Render, Input ''ann'', Trigger]"

text \<open>The search for \<open>ann\<close> has succeeded with one row.\<close>

definition found_ann :: "string view" where
  "found_ann = run no_prepare searching_ann [FetchSettled 0 (Fulfilled [''Ann Lee''])]"

text \<open>
  After that success the user types \<open>bob\<close> and triggers (request 1) and, before its fetch
  settles, types \<open>cy\<close> and triggers again (request 2), which rejects request 1.
\<close>

definition bob_pending :: "string view" where
  "bob_pending = run no_prepare found_ann [Input ''bob'', Trigger]"

definition bob_superseded :: "string view" where
  "bob_superseded = run no_prepare bob_pending [Input ''cy'', Trigger]"

text \<open>
  Three searches \<open>a\<close>, \<open>b\<close>, \<open>c\<close> (requests 0, 1, 2). The fetch of the superseded request 0
  settles between the second and the third trigger.
\<close>

definition stale_completion :: "string view" where
  "stale_completion = run no_prepare (initialize [] [])
     [Render, Input ''a'', Trigger, Input ''b'', Trigger, FetchSettled 0 (Fulfilled [''row a''])]"

definition third_search :: "string view" where
  "third_search = run no_prepare stale_completion [Input ''c'', Trigger]"

definition all_settled :: "string view" where
  "all_settled = run no_prepare third_search
     [FetchSettled 2 (Fulfilled [''row c'']), FetchSettled 1 (Fulfilled [''row b''])]"

section \<open>Properties\<close>

subsection \<open>What a resumed flow leaves alone\<close>

lemmas flow_defs = togglePopupVisibility_resume_def refreshSearchResults_resume_def
  loadSearchResultsIntoTable_resume_def fetchDataError_handler_def promise_catch_def
  add_error_def popup_show_def popup_hide_def collection_reset_def
  refreshCollapsingStatusOfTheResultsView_def collapseResultsView_def expandResultsView_def

lemma resume_flow_frame:
  "requests (resume_flow opts n v) = requests v"
  "microtasks (resume_flow opts n v) = microtasks v"
  "rejectLastSearchRequest (resume_flow opts n v) = rejectLastSearchRequest v"
  "rendered (resume_flow opts n v) = rendered v"
  "input_value (resume_flow opts n v) = input_value v"
  by (auto simp: resume_flow_def flow_defs Let_def
      split: promise.splits outcome.splits error.splits sum.splits option.splits)

lemma fold_resume_flow_frame:
  "requests (fold (resume_flow opts) ns v) = requests v"
  "microtasks (fold (resume_flow opts) ns v) = microtasks v"
  "rejectLastSearchRequest (fold (resume_flow opts) ns v) = rejectLastSearchRequest v"
  "rendered (fold (resume_flow opts) ns v) = rendered v"
  "input_value (fold (resume_flow opts) ns v) = input_value v"
  by (induction ns arbitrary: v; simp add: resume_flow_frame)+

lemma run_microtasks_frame:
  "requests (run_microtasks opts v) = requests v"
  "microtasks (run_microtasks opts v) = []"
  "rejectLastSearchRequest (run_microtasks opts v) = rejectLastSearchRequest v"
  "rendered (run_microtasks opts v) = rendered v"
  "input_value (run_microtasks opts v) = input_value v"
  by (simp_all add: run_microtasks_def fold_resume_flow_frame)

text \<open>Between two events the queue is empty.\<close>

lemma step_microtasks: "microtasks v = [] \<Longrightarrow> microtasks (step opts v ev) = []"
  by (cases ev)
     (simp_all add: run_microtasks_frame togglePopupVisibility_def collection_reset_def
        refreshCollapsingStatusOfTheResultsView_def collapseResultsView_def expandResultsView_def
        popup_hide_def split: prod.splits option.splits)

lemma run_microtasks_empty: "microtasks (run opts (initialize rows errs) evs) = []"
proof -
  have "microtasks v = [] \<Longrightarrow> microtasks (foldl (step opts) v evs) = []" for v :: "'a view"
    by (induction evs arbitrary: v) (simp_all add: step_microtasks)
  then show ?thesis
    by (simp add: run_def initialize_def refreshCollapsingStatusOfTheResultsView_def
        collapseResultsView_def expandResultsView_def)
qed

subsection \<open>The flow of a request that settles while it is awaited\<close>

lemma load_resume_Fulfilled:
  "loadSearchResultsIntoTable_resume opts (Fulfilled d) v =
     (collection_reset (prepareDataForResultsView opts d) v,
      Inr (prepareDataForResultsView opts d))"
  by (simp add: loadSearchResultsIntoTable_resume_def promise_catch_def Let_def)

lemma load_resume_Rejected:
  "loadSearchResultsIntoTable_resume opts (Rejected e) v =
     (collection_reset (prepareDataForResultsView opts [])
        (v\<lparr>form_errors := removeModelsOfGroup fetchDataError_group (form_errors v) @
             [\<lparr>group = fetchDataError_group, message = error_message e\<rparr>]\<rparr>),
      Inr (prepareDataForResultsView opts []))"
  by (simp add: loadSearchResultsIntoTable_resume_def promise_catch_def Let_def
      fetchDataError_handler_def add_error_def)

lemma fetch_settles_pending:
  assumes "n < length (requests v)" "req_promise (requests v ! n) = Pending"
    "fetch_in_flight (requests v ! n)" "microtasks v = []"
  shows "run_microtasks opts (fetchResults_then n out v) =
     resume_flow opts n
       (v\<lparr>rejectLastSearchRequest := None,
          requests := (requests v)
            [n := (requests v ! n)\<lparr>fetch_in_flight := False, req_promise := Settled out\<rparr>],
          microtasks := []\<rparr>)"
  using assms by (simp add: fetchResults_then_def settle_def run_microtasks_def)

lemma failed_fetch_records_criteria:
  assumes "n < length (requests v)" "req_promise (requests v ! n) = Pending"
    "fetch_in_flight (requests v ! n)" "microtasks v = []"
  shows "lastSearchCriteria (step opts v (FetchSettled n (Rejected e))) =
           req_criteria (requests v ! n)"
  using assms
  by (simp add: fetch_settles_pending resume_flow_def load_resume_Rejected
      refreshSearchResults_resume_def togglePopupVisibility_resume_def
      popup_show_def popup_hide_def collection_reset_def
      refreshCollapsingStatusOfTheResultsView_def collapseResultsView_def expandResultsView_def)

lemma fetch_settled_searchCriteria:
  "searchCriteria (step opts v (FetchSettled n out)) = searchCriteria v"
  by (simp add: searchCriteria_def run_microtasks_frame fetchResults_then_def settle_def)



lemma fulfilled_fetch_shows_prepared:
  assumes "n < length (requests v)" "req_promise (requests v ! n) = Pending"
    "fetch_in_flight (requests v ! n)" "microtasks v = []"
  shows "popup_shown (step opts v (FetchSettled n (Fulfilled data))) =
           (prepareDataForResultsView opts data = [])"
    and "collection (step opts v (FetchSettled n (Fulfilled data))) =
           prepareDataForResultsView opts data"
  using assms
  by (simp_all add: fetch_settles_pending resume_flow_def load_resume_Fulfilled
      refreshSearchResults_resume_def togglePopupVisibility_resume_def
      popup_show_def popup_hide_def collection_reset_def
      refreshCollapsingStatusOfTheResultsView_def collapseResultsView_def expandResultsView_def)

text \<open>
  Whatever a request has settled with, fulfilled, failed or cancelled, the flow that
  awaited it leaves the popup shown iff the results collection is empty.
\<close>

lemma resumed_flow_popup_follows_rows:
  assumes "n < length (requests v)" "req_promise (requests v ! n) = Settled out"
  shows "popup_shown (resume_flow opts n v) = (collection (resume_flow opts n v) = [])"
  using assms
  by (cases out)
     (simp_all add: resume_flow_def load_resume_Fulfilled load_resume_Rejected
        refreshSearchResults_resume_def togglePopupVisibility_resume_def
        popup_show_def popup_hide_def collection_reset_def
        refreshCollapsingStatusOfTheResultsView_def collapseResultsView_def
        expandResultsView_def)

subsection \<open>How many requests an event issues\<close>






lemma skip_trigger:
  "searchCriteria v = lastSearchCriteria v \<Longrightarrow> requests (step opts v Trigger) = requests v"
  by (simp add: togglePopupVisibility_def refreshSearchResults_start_def run_microtasks_frame
      togglePopupVisibility_resume_def popup_show_def
      refreshCollapsingStatusOfTheResultsView_def collapseResultsView_def expandResultsView_def)





subsection \<open>The collapse rule is kept by every event\<close>

lemma refreshCollapsing_collapse_inv: "collapse_inv (refreshCollapsingStatusOfTheResultsView v)"
  by (simp add: collapse_inv_def refreshCollapsingStatusOfTheResultsView_def
      collapseResultsView_def expandResultsView_def)

lemma resume_flow_collapse_inv: "collapse_inv v \<Longrightarrow> collapse_inv (resume_flow opts n v)"
  by (auto simp: collapse_inv_def resume_flow_def flow_defs Let_def
      split: promise.splits outcome.splits error.splits sum.splits option.splits)

lemma fold_resume_flow_collapse_inv:
  "collapse_inv v \<Longrightarrow> collapse_inv (fold (resume_flow opts) ns v)"
  by (induction ns arbitrary: v) (simp_all add: resume_flow_collapse_inv)

lemma run_microtasks_collapse_inv:
  assumes "collapse_inv v"
  shows "collapse_inv (run_microtasks opts v)"
proof -
  from assms have "collapse_inv (v\<lparr>microtasks := []\<rparr>)"
    by (simp add: collapse_inv_def)
  then show ?thesis
    by (simp add: run_microtasks_def fold_resume_flow_collapse_inv)
qed

lemma fetchResults_then_collapse_inv:
  "collapse_inv (fetchResults_then n out v) = collapse_inv v"
  by (simp add: fetchResults_then_def settle_def collapse_inv_def)

lemma fetchResultsSingle_collapse_inv:
  "collapse_inv (fst (fetchResultsSingle crit v)) = collapse_inv v"
  by (simp add: fetchResultsSingle_def rejectLast_closure_def settle_def collapse_inv_def Let_def
      split: option.splits)

lemma togglePopupVisibility_collapse_inv:
  "collapse_inv v \<Longrightarrow> collapse_inv (togglePopupVisibility opts v)"
  using fetchResultsSingle_collapse_inv [of "searchCriteria v" v]
  by (auto simp: togglePopupVisibility_def refreshSearchResults_start_def
      loadSearchResultsIntoTable_start_def togglePopupVisibility_resume_def
      refreshCollapsing_collapse_inv
      intro!: run_microtasks_collapse_inv split: prod.splits)

lemma step_collapse_inv: "collapse_inv v \<Longrightarrow> collapse_inv (step opts v ev)"
  by (cases ev)
     (simp_all add: togglePopupVisibility_collapse_inv run_microtasks_collapse_inv
        fetchResults_then_collapse_inv collection_reset_def refreshCollapsing_collapse_inv,
      simp_all add: collapse_inv_def popup_hide_def)

lemma run_collapse_inv: "collapse_inv v \<Longrightarrow> collapse_inv (run opts v evs)"
  unfolding run_def by (induction evs arbitrary: v) (simp_all add: step_collapse_inv)

subsection \<open>C1: a cancelled request\<close>

text \<open>
  C1 says that a flow whose request is rejected with the cancellation error aborts
  silently. The handler of \<open>request.catch\<close> in \<open>_loadSearchResultsIntoTable\<close> takes that
  error like any other, so the \<open>instanceof PromiseRejectedError\<close> branch of
  \<open>_togglePopupVisibility\<close> never sees it. Here request 1 (\<open>bob\<close>) is rejected by the trigger
  for \<open>cy\<close> while request 2 is pending: the row found for \<open>ann\<close> is dropped, the popup opens,
  the collapse class is added, an error entry is added and \<open>bob\<close> is recorded as the last
  criteria.
\<close>

theorem cancelled_flow_is_not_silent:
  "req_promise (requests bob_superseded ! 1) =
     Settled (Rejected (PromiseRejectedError ''Request is cancelled''))
   \<and> req_promise (requests bob_superseded ! 2) = Pending
   \<and> collection bob_pending = [''Ann Lee''] \<and> collection bob_superseded = []
   \<and> \<not> popup_shown bob_pending \<and> popup_shown bob_superseded
   \<and> CSS_HIDE_RESULTS_LIST \<notin> el_classes bob_pending
   \<and> CSS_HIDE_RESULTS_LIST \<in> el_classes bob_superseded
   \<and> form_errors bob_pending = []
   \<and> form_errors bob_superseded =
       [\<lparr>group = fetchDataError_group, message = ''Request is cancelled''\<rparr>]
   \<and> lastSearchCriteria bob_superseded = [(''FirstName'', ''bob'')]"
  by code_simp

subsection \<open>C2: completion order\<close>

text \<open>
  C2 says that the results collection reflects the last triggered criteria whatever the
  order in which the fetches complete. When the fetch of the superseded request 0 settles,
  its handler clears \<open>_rejectLastSearchRequest\<close>, which by then holds the closure of
  request 1; the third trigger therefore rejects nothing, and request 1, settling after
  request 2, overwrites its rows: the last trigger asked for \<open>c\<close>, the collection shows the
  row of \<open>b\<close>.
\<close>

theorem stale_completion_lets_older_results_win:
  "map req_criteria (requests all_settled) =
     [[(''FirstName'', ''a'')], [(''FirstName'', ''b'')], [(''FirstName'', ''c'')]]
   \<and> searchCriteria all_settled = [(''FirstName'', ''c'')]
   \<and> req_promise (requests all_settled ! 2) = Settled (Fulfilled [''row c''])
   \<and> req_promise (requests all_settled ! 1) = Settled (Fulfilled [''row b''])
   \<and> collection all_settled = [''row b'']
   \<and> lastSearchCriteria all_settled = [(''FirstName'', ''b'')]"
  by code_simp

subsection \<open>C3: one outstanding request\<close>

text \<open>
  C3 says that at most one request is outstanding and that a new request rejects the
  pending one before its fetch is issued. After the fetch of the superseded request 0 has
  settled, nothing is stored in \<open>_rejectLastSearchRequest\<close> although request 1 is pending;
  the third trigger issues request 2 and leaves request 1 pending with its fetch in flight.
\<close>

theorem two_requests_outstanding:
  "rejectLastSearchRequest stale_completion = None
   \<and> req_promise (requests stale_completion ! 1) = Pending
   \<and> fetch_in_flight (requests stale_completion ! 1)
   \<and> length (requests third_search) = 3
   \<and> req_promise (requests third_search ! 1) = Pending
   \<and> fetch_in_flight (requests third_search ! 1)
   \<and> req_promise (requests third_search ! 2) = Pending
   \<and> fetch_in_flight (requests third_search ! 2)
   \<and> rejectLastSearchRequest third_search = Some 2"
  by code_simp

subsection \<open>C4: a fetch that fails\<close>

text \<open>
  C4 as stated: after a fetch has failed with an error other than the cancellation error,
  the results collection is empty and the popup is shown. With a transform that maps the
  empty list to a row, the collection holds that row and the popup is hidden.
\<close>

theorem failed_fetch_transform_counterexample:
  "collection (run with_footer (initialize [] [])
      [Render, Input ''ann'', Trigger, FetchSettled 0 (Rejected (Error ''boom''))]) =
     [''Add a new person'']
   \<and> \<not> popup_shown (run with_footer (initialize [] [])
      [Render, Input ''ann'', Trigger, FetchSettled 0 (Rejected (Error ''boom''))])"
  by code_simp

text \<open>
  C4, amended: when the fetch of a request that is still pending fails with an error other
  than the cancellation error, the results collection is reset to the transform of the
  empty list (the empty list when no transform is configured), the entries of the group
  \<open>fetchResultsForCriteria::fetchDataError\<close> are removed from the form's error list and one
  entry of that group with the failure's message is appended, so that the group holds
  exactly that entry, and the popup is shown iff the transform of the empty list is empty.
\<close>

theorem failed_fetch_surfaces_error:
  assumes "n < length (requests v)" "req_promise (requests v ! n) = Pending"
    "fetch_in_flight (requests v ! n)" "microtasks v = []"
    and "v' = step opts v (FetchSettled n (Rejected (Error msg)))"
  shows "collection v' = prepareDataForResultsView opts []
       \<and> form_errors v' = removeModelsOfGroup fetchDataError_group (form_errors v) @
             [\<lparr>group = fetchDataError_group, message = msg\<rparr>]
       \<and> filter (\<lambda>e. group e = fetchDataError_group) (form_errors v') =
             [\<lparr>group = fetchDataError_group, message = msg\<rparr>]
       \<and> popup_shown v' = (prepareDataForResultsView opts [] = [])
       \<and> (prepareResults opts = None \<longrightarrow> collection v' = [] \<and> popup_shown v')"
  using assms
  by (simp add: fetch_settles_pending resume_flow_def load_resume_Rejected
      refreshSearchResults_resume_def togglePopupVisibility_resume_def removeModelsOfGroup_def
      popup_show_def popup_hide_def collection_reset_def prepareDataForResultsView_def
      refreshCollapsingStatusOfTheResultsView_def collapseResultsView_def expandResultsView_def)

theorem failed_fetch_surfaces_error_witness:
  "0 < length (requests searching_ann)
   \<and> req_promise (requests searching_ann ! 0) = Pending
   \<and> fetch_in_flight (requests searching_ann ! 0)
   \<and> microtasks searching_ann = []
   \<and> prepareResults no_prepare = None
   \<and> collection (step no_prepare searching_ann (FetchSettled 0 (Rejected (Error ''boom'')))) = []
   \<and> filter (\<lambda>e. group e = fetchDataError_group)
       (form_errors (step no_prepare searching_ann (FetchSettled 0 (Rejected (Error ''boom''))))) =
       [\<lparr>group = fetchDataError_group, message = ''boom''\<rparr>]
   \<and> popup_shown (step no_prepare searching_ann (FetchSettled 0 (Rejected (Error ''boom''))))"
proof -
  have h1: "0 < length (requests searching_ann)" by code_simp
  have h2: "req_promise (requests searching_ann ! 0) = Pending" by code_simp
  have h3: "fetch_in_flight (requests searching_ann ! 0)" by code_simp
  have h4: "microtasks searching_ann = []" by code_simp
  have h5: "prepareResults no_prepare = None" by (simp add: no_prepare_def)
  note c = failed_fetch_surfaces_error [OF h1 h2 h3 h4 refl, of no_prepare "''boom''"]
  show ?thesis using h1 h2 h3 h4 h5 c
    by (simp add: prepareDataForResultsView_def removeModelsOfGroup_def)
qed

subsection \<open>C5: equal criteria\<close>




subsection \<open>C6: the popup on the skip path\<close>

text \<open>
  C6 says that a trigger which takes the skip path does not change the popup's
  visibility. The method is documented as \<open>Show popup if there is no search results\<close>, and
  every flow that awaited a request leaves the popup shown iff the collection is empty
  (\<open>resumed_flow_popup_follows_rows\<close>). On the skip path \<open>_refreshSearchResults\<close> returns
  \<open>undefined\<close>, which \<open>!results\<close> takes for no results: after the search for \<open>ann\<close> has found
  a row and hidden the popup, a second trigger with the same input issues no request,
  leaves the row in the collection and shows the popup over it.
\<close>

theorem skip_path_opens_popup_over_rows:
  "searchCriteria found_ann = lastSearchCriteria found_ann
   \<and> refreshSearchResults_start found_ann = (found_ann, None)
   \<and> requests (step no_prepare found_ann Trigger) = requests found_ann
   \<and> collection found_ann = [''Ann Lee'']
   \<and> \<not> popup_shown found_ann
   \<and> collection (step no_prepare found_ann Trigger) = [''Ann Lee'']
   \<and> popup_shown (step no_prepare found_ann Trigger)"
  by code_simp

subsection \<open>C7: triggering again after a failure\<close>

text \<open>
  C7 as stated: after the fetch for criteria \<open>C\<close> has failed with an error other than the
  cancellation error, a trigger whose criteria are again \<open>C\<close> issues a new fetch. The fetch
  for \<open>ann\<close> fails with \<open>boom\<close>; the next trigger, the input still \<open>ann\<close>, issues none.
\<close>

theorem retrigger_after_failure_counterexample:
  "req_promise (requests (step no_prepare searching_ann
       (FetchSettled 0 (Rejected (Error ''boom''))))  ! 0) = Settled (Rejected (Error ''boom''))
   \<and> searchCriteria (step no_prepare searching_ann (FetchSettled 0 (Rejected (Error ''boom'')))) =
       req_criteria (requests searching_ann ! 0)
   \<and> length (requests (step no_prepare searching_ann
       (FetchSettled 0 (Rejected (Error ''boom''))))) = 1
   \<and> length (requests (step no_prepare (step no_prepare searching_ann
       (FetchSettled 0 (Rejected (Error ''boom'')))) Trigger)) = 1"
  by code_simp

text \<open>
  C7, amended: when the fetch of a pending request for criteria \<open>C\<close> fails with an error
  other than the cancellation error, \<open>C\<close> is recorded as the last criteria, as after a
  success; a trigger that follows while the input still gives \<open>C\<close> takes the skip path and
  issues no fetch.
\<close>

theorem failed_criteria_recorded_as_last:
  assumes "n < length (requests v)" "req_promise (requests v ! n) = Pending"
    "fetch_in_flight (requests v ! n)" "microtasks v = []"
    and "searchCriteria v = req_criteria (requests v ! n)"
    and "v' = step opts v (FetchSettled n (Rejected (Error msg)))"
  shows "lastSearchCriteria v' = req_criteria (requests v ! n)
       \<and> refreshSearchResults_start v' = (v', None)
       \<and> requests (step opts v' Trigger) = requests v'"
proof -
  have last: "lastSearchCriteria v' = req_criteria (requests v ! n)"
    unfolding assms(6) using assms(1-4) by (rule failed_fetch_records_criteria)
  have "searchCriteria v' = searchCriteria v"
    unfolding assms(6) by (rule fetch_settled_searchCriteria)
  with last assms(5) have same: "searchCriteria v' = lastSearchCriteria v'"
    by simp
  then have "refreshSearchResults_start v' = (v', None)"
    by (simp add: refreshSearchResults_start_def)
  moreover from same have "requests (step opts v' Trigger) = requests v'"
    by (rule skip_trigger)
  ultimately show ?thesis using last by simp
qed

theorem failed_criteria_recorded_as_last_witness:
  "1 < length (requests bob_pending)
   \<and> req_promise (requests bob_pending ! 1) = Pending
   \<and> fetch_in_flight (requests bob_pending ! 1)
   \<and> microtasks bob_pending = []
   \<and> searchCriteria bob_pending = req_criteria (requests bob_pending ! 1)
   \<and> lastSearchCriteria bob_pending = [(''FirstName'', ''ann'')]
   \<and> lastSearchCriteria (step no_prepare bob_pending (FetchSettled 1 (Rejected (Error ''down'')))) =
       [(''FirstName'', ''bob'')]"
proof -
  have h1: "1 < length (requests bob_pending)" by code_simp
  have h2: "req_promise (requests bob_pending ! 1) = Pending" by code_simp
  have h3: "fetch_in_flight (requests bob_pending ! 1)" by code_simp
  have h4: "microtasks bob_pending = []" by code_simp
  have h5: "searchCriteria bob_pending = req_criteria (requests bob_pending ! 1)" by code_simp
  have h6: "lastSearchCriteria bob_pending = [(''FirstName'', ''ann'')]" by code_simp
  have h7: "req_criteria (requests bob_pending ! 1) = [(''FirstName'', ''bob'')]" by code_simp
  note c = failed_criteria_recorded_as_last [OF h1 h2 h3 h4 h5 refl, of no_prepare "''down''"]
  show ?thesis using h1 h2 h3 h4 h5 h6 h7 c by simp
qed

subsection \<open>C8: the popup after a success\<close>

text \<open>
  C8: when the fetch of a pending request succeeds with \<open>data\<close>, the popup is shown iff
  the transformed result has no rows and hidden otherwise, where the transformed result is
  \<open>f data\<close> for a configured transform \<open>f\<close> and \<open>data\<close> itself when none is configured; the
  transformed result is what the results collection then holds.
\<close>

theorem popup_shown_iff_no_rows:
  assumes "n < length (requests v)" "req_promise (requests v ! n) = Pending"
    "fetch_in_flight (requests v ! n)" "microtasks v = []"
    and "v' = step opts v (FetchSettled n (Fulfilled data))"
  shows "(prepareResults opts = Some f \<longrightarrow>
            popup_shown v' = (length (f data) = 0) \<and> collection v' = f data)
       \<and> (prepareResults opts = None \<longrightarrow>
            popup_shown v' = (length data = 0) \<and> collection v' = data)"
proof -
  have "popup_shown v' = (prepareDataForResultsView opts data = [])"
    and "collection v' = prepareDataForResultsView opts data"
    unfolding assms(5) using assms(1-4) by (rule fulfilled_fetch_shows_prepared)+
  then show ?thesis
    by (simp add: prepareDataForResultsView_def)
qed

theorem popup_shown_iff_no_rows_witness:
  "0 < length (requests searching_ann)
   \<and> req_promise (requests searching_ann ! 0) = Pending
   \<and> fetch_in_flight (requests searching_ann ! 0)
   \<and> microtasks searching_ann = []
   \<and> prepareResults with_footer = Some (\<lambda>rows. rows @ [''Add a new person''])
   \<and> prepareResults no_prepare = None
   \<and> \<not> popup_shown (step with_footer searching_ann (FetchSettled 0 (Fulfilled [])))
   \<and> collection (step with_footer searching_ann (FetchSettled 0 (Fulfilled []))) =
       [''Add a new person'']
   \<and> popup_shown (step no_prepare searching_ann (FetchSettled 0 (Fulfilled [])))
   \<and> \<not> popup_shown (step no_prepare searching_ann (FetchSettled 0 (Fulfilled [''Ann Lee''])))
   \<and> collection (step no_prepare searching_ann (FetchSettled 0 (Fulfilled [''Ann Lee'']))) =
       [''Ann Lee'']"
proof -
  have h1: "0 < length (requests searching_ann)" by code_simp
  have h2: "req_promise (requests searching_ann ! 0) = Pending" by code_simp
  have h3: "fetch_in_flight (requests searching_ann ! 0)" by code_simp
  have h4: "microtasks searching_ann = []" by code_simp
  have f: "prepareResults with_footer = Some (\<lambda>rows. rows @ [''Add a new person''])"
    by (simp add: with_footer_def)
  have g: "prepareResults no_prepare = None"
    by (simp add: no_prepare_def)
  note c1 = popup_shown_iff_no_rows [OF h1 h2 h3 h4 refl,
      of with_footer "\<lambda>rows. rows @ [''Add a new person'']" "[]"]
  note c2 = popup_shown_iff_no_rows [OF h1 h2 h3 h4 refl, of no_prepare _ "[]"]
  note c3 = popup_shown_iff_no_rows [OF h1 h2 h3 h4 refl, of no_prepare _ "[''Ann Lee'']"]
  show ?thesis using h1 h2 h3 h4 f g c1 c2 c3 by simp
qed

subsection \<open>C9: the collapse class\<close>

text \<open>
  C9: after construction and after every sequence of events (renders, input, triggers,
  settling fetches, resets and updates of the results collection from outside, clicks on
  the popup), the class \<open>generic-form-with-search-results--results-view-hidden\<close> is on
  the root element iff the results collection has length 0.
\<close>

theorem collapse_class_iff_empty:
  "(CSS_HIDE_RESULTS_LIST \<in> el_classes (run opts (initialize rows errs) evs)) =
     (length (collection (run opts (initialize rows errs) evs)) = 0)"
  using run_collapse_inv [of "initialize rows errs" opts evs]
  by (simp add: initialize_def refreshCollapsing_collapse_inv) (simp add: collapse_inv_def)

theorem collapse_class_iff_empty_witness:
  "CSS_HIDE_RESULTS_LIST \<in> el_classes (initialize ([] :: string list) [])
   \<and> CSS_HIDE_RESULTS_LIST \<notin> el_classes found_ann
   \<and> length (collection found_ann) = 1"
proof -
  have h: "found_ann = run no_prepare (initialize [] [])
      [Render, Input ''ann'', Trigger, FetchSettled 0 (Fulfilled [''Ann Lee''])]"
    by (simp add: found_ann_def searching_ann_def run_def)
  have l: "length (collection found_ann) = 1" by code_simp
  have e: "collection (initialize ([] :: string list) []) = []" by code_simp
  note c1 = collapse_class_iff_empty [of no_prepare "[]" "[]"
      "[Render, Input ''ann'', Trigger, FetchSettled 0 (Fulfilled [''Ann Lee''])]"]
  note c2 = collapse_class_iff_empty [of no_prepare "[]" "[]" "[]"]
  show ?thesis using c1 [folded h] c2 l e by (simp add: run_def)
qed

subsection \<open>C10: the stored closure after a fetch has settled\<close>

text \<open>
  C10: when the fetch of a call of \<open>_fetchResultsSingle\<close> settles, fulfilled or rejected,
  \<open>_rejectLastSearchRequest\<close> is \<open>null\<close> afterwards, also once the flow it resumes has run;
  the next call of \<open>_fetchResultsSingle\<close> then rejects nothing and only adds its own
  request.
\<close>

theorem fetch_settled_clears_capability:
  assumes "n < length (requests v)" "fetch_in_flight (requests v ! n)"
  shows "rejectLastSearchRequest (fetchResults_then n out v) = None
       \<and> rejectLastSearchRequest (step opts v (FetchSettled n out)) = None
       \<and> requests (fst (fetchResultsSingle crit (step opts v (FetchSettled n out)))) =
           requests (step opts v (FetchSettled n out)) @
             [\<lparr>req_criteria = crit, req_promise = Pending, fetch_in_flight = True\<rparr>]"
proof -
  have a: "rejectLastSearchRequest (fetchResults_then n out v) = None"
    using assms by (simp add: fetchResults_then_def settle_def)
  then have b: "rejectLastSearchRequest (step opts v (FetchSettled n out)) = None"
    by (simp add: run_microtasks_frame)
  from b show ?thesis using a
    by (simp add: fetchResultsSingle_def Let_def)
qed

theorem fetch_settled_clears_capability_witness:
  "0 < length (requests searching_ann)
   \<and> fetch_in_flight (requests searching_ann ! 0)
   \<and> rejectLastSearchRequest searching_ann = Some 0
   \<and> rejectLastSearchRequest
       (step no_prepare searching_ann (FetchSettled 0 (Rejected (Error ''boom'')))) = None
   \<and> rejectLastSearchRequest
       (step no_prepare searching_ann (FetchSettled 0 (Fulfilled [''Ann Lee'']))) = None"
proof -
  have h1: "0 < length (requests searching_ann)" by code_simp
  have h2: "fetch_in_flight (requests searching_ann ! 0)" by code_simp
  have h3: "rejectLastSearchRequest searching_ann = Some 0" by code_simp
  note c1 = fetch_settled_clears_capability
      [OF h1 h2, of "Rejected (Error ''boom'')" no_prepare "[]"]
  note c2 = fetch_settled_clears_capability
      [OF h1 h2, of "Fulfilled [''Ann Lee'']" no_prepare "[]"]
  show ?thesis using h1 h2 h3 c1 c2 by simp
qed

end
